theory Spec2Isabelle
  imports Complex_Main "HOL-Library.Sublist"
begin

section \<open>Data sources\<close>

text \<open>
  A \<^verbatim>\<open>carto.source.SQL\<close> object holds its current query. The model also keeps the list of
  queries handed to \<^verbatim>\<open>setQuery\<close>, oldest first, so that the number of query updates a
  handler pushes can be counted.
\<close>

record sql_source =
  query :: string
  setQuery_calls :: "string list"

definition SQL :: "string \<Rightarrow> sql_source" where
  "SQL q = \<lparr>query = q, setQuery_calls = []\<rparr>"

definition setQuery :: "string \<Rightarrow> sql_source \<Rightarrow> sql_source" where
  "setQuery q src = src\<lparr>query := q, setQuery_calls := setQuery_calls src @ [q]\<rparr>"

text \<open>Text search used to state what a query mentions: \<open>occurs_in p s\<close> holds when
  \<open>p\<close> is a contiguous part of \<open>s\<close>.\<close>

fun occurs_in :: "string \<Rightarrow> string \<Rightarrow> bool" where
  "occurs_in p [] = (p = [])"
| "occurs_in p (c # cs) = (prefix p (c # cs) \<or> occurs_in p cs)"

section \<open>The selection controller (setupSelectionHandlers)\<close>

text \<open>
  The editable circle belongs to the map widget. The handlers never look at the event they
  receive; they read the circle when they run. An event is therefore modelled together with
  the geometry the circle has at the moment the event is delivered.

  The numbers are JavaScript numbers. How they are printed is fixed by the runtime
  (\<^verbatim>\<open>toFixed(4)\<close>, the conversion of a number inside a template literal) and by Leaflet.draw
  (\<^verbatim>\<open>L.GeometryUtil.readableDistance(r, true)\<close>), none of which is part of the program, so
  the three printers are parameters of the model.
\<close>

record 'n circle =
  lat :: 'n
  lng :: 'n
  radius :: 'n

record 'n printers =
  toFixed4 :: "'n \<Rightarrow> string"
  toString :: "'n \<Rightarrow> string"
  readableDistance :: "'n \<Rightarrow> string"

record controller =
  circleUpdated :: bool
  subwaySource :: sql_source
  infoBox :: string

datatype map_event = EDITMOVE | EDITRESIZE | MOUSEUP

text \<open>The subway layer's source as \<^verbatim>\<open>createCartoLayer\<close> creates it.\<close>

definition createCartoLayer :: sql_source where
  "createCartoLayer = SQL (''\<newline>    SELECT * FROM huyvo.ourdata\<newline>    WHERE line like '%F%'\<newline>  '')"

definition caption_html :: "'n printers \<Rightarrow> 'n circle \<Rightarrow> string" where
  "caption_html p c =
     ''<table style='width:100%'>\<newline>                   <tr><th>Coords</th><td>''
     @ toFixed4 p (lat c) @ '','' @ toFixed4 p (lng c)
     @ ''</td></tr>\<newline>                   <tr><th>Radius</th><td>''
     @ readableDistance p (radius c)
     @ ''</td></tr>\<newline>                   </table>''"

definition updateCaption :: "'n printers \<Rightarrow> 'n circle \<Rightarrow> controller \<Rightarrow> controller" where
  "updateCaption p c s = s\<lparr>infoBox := caption_html p c\<rparr>"

definition updateQueryStatus :: "'n printers \<Rightarrow> 'n circle \<Rightarrow> controller \<Rightarrow> controller" where
  "updateQueryStatus p c s = updateCaption p c (s\<lparr>circleUpdated := True\<rparr>)"

definition circle_query :: "'n printers \<Rightarrow> 'n circle \<Rightarrow> string" where
  "circle_query p c =
     ''SELECT *\<newline>                      FROM huyvo.ourdata\<newline>                     WHERE line like '%F%'\<newline>                       AND ST_DWithin(the_geom::geography,\<newline>                                      CDB_LatLng(''
     @ toFixed4 p (lat c) @ '','' @ toFixed4 p (lng c)
     @ '')::geography,\<newline>                                      ''
     @ toString p (radius c)
     @ '')\<newline>          ''"

definition updateQuery :: "'n printers \<Rightarrow> 'n circle \<Rightarrow> controller \<Rightarrow> controller" where
  "updateQuery p c s =
     (if circleUpdated s
      then s\<lparr>circleUpdated := False,
             subwaySource := setQuery (circle_query p c) (subwaySource s)\<rparr>
      else s)"

text \<open>
  \<^verbatim>\<open>setupSelectionHandlers\<close> registers the three handlers, sets the flag and calls
  \<^verbatim>\<open>updateQueryStatus(null)\<close> once. The info box is the empty \<^verbatim>\<open>div\<close> that
  \<^verbatim>\<open>createBaseMap\<close> added.
\<close>

definition setupSelectionHandlers :: "'n printers \<Rightarrow> 'n circle \<Rightarrow> sql_source \<Rightarrow> controller" where
  "setupSelectionHandlers p c src =
     updateQueryStatus p c \<lparr>circleUpdated = True, subwaySource = src, infoBox = []\<rparr>"

text \<open>Dispatch of one map event to the handler registered for it.\<close>

fun fire :: "'n printers \<Rightarrow> 'n circle \<times> map_event \<Rightarrow> controller \<Rightarrow> controller" where
  "fire p (c, EDITMOVE) s = updateQueryStatus p c s"
| "fire p (c, EDITRESIZE) s = updateQueryStatus p c s"
| "fire p (c, MOUSEUP) s = updateQuery p c s"

fun fire_all :: "'n printers \<Rightarrow> ('n circle \<times> map_event) list \<Rightarrow> controller \<Rightarrow> controller" where
  "fire_all p [] s = s"
| "fire_all p (e # es) s = fire_all p es (fire p e s)"

definition is_edit :: "map_event \<Rightarrow> bool" where
  "is_edit k = (k = EDITMOVE \<or> k = EDITRESIZE)"

text \<open>Printers used to run the model on concrete numbers: integers printed as a digit
  character, enough to tell the geometries of a trace apart.\<close>

definition digit_printers :: "nat printers" where
  "digit_printers = \<lparr>toFixed4 = (\<lambda>n. [char_of (48 + n)]),
                     toString = (\<lambda>n. [char_of (48 + n)]),
                     readableDistance = (\<lambda>n. [char_of (48 + n)] @ '' m'')\<rparr>"

section \<open>The category chart (createChartFromCarto, createChart)\<close>

datatype js_error = TypeError

text \<open>One entry of \<^verbatim>\<open>newData.categories\<close>, as a category dataview delivers it.\<close>

record category =
  name :: string
  "value" :: int

text \<open>The shared \<^verbatim>\<open>selection\<close> object of \<^verbatim>\<open>initVisualization\<close>.\<close>

record selection =
  cuisine :: string
  data :: "(string \<times> int) list"

text \<open>The options a dataview is created with.\<close>

record dataview =
  column :: string
  limit :: nat

definition totalView :: dataview where
  "totalView = \<lparr>column = ''cuisine'', limit = 1000\<rparr>"

definition zipView :: dataview where
  "zipView = \<lparr>column = ''zipcode'', limit = 1000\<rparr>"

text \<open>
  \<^verbatim>\<open>Array.prototype.slice(start, end)\<close>: a negative index counts from the end, both
  indices are clamped to the array, and a missing \<^verbatim>\<open>end\<close> is the length.
\<close>

definition slice :: "int \<Rightarrow> int option \<Rightarrow> 'a list \<Rightarrow> 'a list" where
  "slice start fin xs =
     (let len = int (length xs);
          k = (if start < 0 then max (len + start) 0 else min start len);
          final = (case fin of None \<Rightarrow> len
                   | Some e \<Rightarrow> if e < 0 then max (len + e) 0 else min e len)
      in take (nat (final - k)) (drop (nat k) xs))"

text \<open>
  \<^verbatim>\<open>d3.max(values, accessor)\<close> over numbers: \<^verbatim>\<open>undefined\<close> (here \<open>None\<close>) for an empty
  array, otherwise the first value, replaced by each later value that is greater.
\<close>

fun d3_max :: "'a::linorder list \<Rightarrow> 'a option" where
  "d3_max [] = None"
| "d3_max (v # vs) = Some (fold (\<lambda>x m. if x > m then x else m) vs v)"

text \<open>
  \<^verbatim>\<open>createChart(g, byCuisine, sqlSource, selection)\<close>. The chart group \<open>g\<close> is modelled by the
  data bound to its \<^verbatim>\<open>.bar\<close> rectangles, in document order. The declarations at the head of
  the function read \<^verbatim>\<open>data.slice(-1)[0][0]\<close>, which throws a TypeError when \<^verbatim>\<open>data\<close> is
  empty, before anything has been drawn. Otherwise the join \<^verbatim>\<open>selectAll(".bar").data(data)\<close>
  rebinds the rectangles already there by index and \<^verbatim>\<open>enter().append("rect")\<close> adds one
  rectangle for each further datum. The pixel geometry of axes and bars, which the scales
  \<^verbatim>\<open>x\<close> and \<^verbatim>\<open>yb\<close> compute, is not modelled.
\<close>

definition createChart :: "(string \<times> int) list \<Rightarrow> (string \<times> int) list \<Rightarrow>
    js_error + (string \<times> int) list" where
  "createChart g byCuisine =
     (let data = slice 0 (Some 25) byCuisine;
          maxValue = d3_max (map snd data)
      in case slice (- 1) None data of
           [] \<Rightarrow> Inl TypeError
         | d # _ \<Rightarrow> Inr (data @ drop (length data) g))"

text \<open>The query the click handler of a bar builds from the bar's key \<^verbatim>\<open>d[0]\<close>.\<close>

definition cuisine_query :: "string \<Rightarrow> string" where
  "cuisine_query k =
     ''\<newline>          SELECT *\<newline>            FROM htv210.nyc_restaurant_grades\<newline>           WHERE cuisine=''
     @ [CHR 0x27] @ k @ [CHR 0x27] @ ''\<newline>        ''"

text \<open>
  The state \<^verbatim>\<open>createChartFromCarto\<close> sets up: the restaurant source, the selection, whether
  \<^verbatim>\<open>initBarChart\<close> is registered for \<^verbatim>\<open>dataChanged\<close> on \<^verbatim>\<open>totalView\<close>, and the chart group.
  \<open>createChart_calls\<close> records the argument of every call of \<^verbatim>\<open>createChart\<close>, oldest first.
\<close>

record dashboard =
  resData :: sql_source
  selection :: selection
  totalView_on :: bool
  gChart :: "(string \<times> int) list"
  createChart_calls :: "(string \<times> int) list list"

definition createChartFromCarto :: dashboard where
  "createChartFromCarto =
     \<lparr>resData = SQL ''\<newline>    SELECT *\<newline>      FROM huyvo.nyc_restaurant_grades\<newline>  '',
      selection = \<lparr>cuisine = ''All'', data = []\<rparr>,
      totalView_on = True,
      gChart = [],
      createChart_calls = []\<rparr>"

text \<open>
  \<^verbatim>\<open>initBarChart\<close> returns the exception it lets escape, if any, and the state it leaves.
  When \<^verbatim>\<open>createChart\<close> throws, the call of \<^verbatim>\<open>totalView.off\<close> after it is not reached.
\<close>

definition initBarChart :: "category list \<Rightarrow> dashboard \<Rightarrow> js_error option \<times> dashboard" where
  "initBarChart categories s =
     (let byCuisine = map (\<lambda>d. (name d, value d)) categories;
          s1 = s\<lparr>createChart_calls := createChart_calls s @ [byCuisine]\<rparr>
      in case createChart (gChart s) byCuisine of
           Inl e \<Rightarrow> (Some e, s1)
         | Inr g \<Rightarrow> (None, s1\<lparr>gChart := g, totalView_on := False\<rparr>))"

definition bar_click :: "string \<times> int \<Rightarrow> dashboard \<Rightarrow> dashboard" where
  "bar_click d s =
     s\<lparr>resData := setQuery (cuisine_query (fst d)) (resData s),
       selection := (selection s)\<lparr>cuisine := fst d\<rparr>\<rparr>"

text \<open>
  The events of the chart: a delivery of \<^verbatim>\<open>dataChanged\<close> on \<^verbatim>\<open>totalView\<close>, which reaches
  \<^verbatim>\<open>initBarChart\<close> only while it is registered, and a click on the \<open>i\<close>-th bar, which runs
  the handler with the datum bound to that bar. An exception that escapes a handler ends
  that handler only; the page goes on with the state the handler left.
\<close>

datatype chart_event = TotalData "category list" | Click nat

fun dispatch :: "chart_event \<Rightarrow> dashboard \<Rightarrow> js_error option \<times> dashboard" where
  "dispatch (TotalData categories) s =
     (if totalView_on s then initBarChart categories s else (None, s))"
| "dispatch (Click i) s =
     (if i < length (gChart s) then (None, bar_click (gChart s ! i) s) else (None, s))"

fun dispatch_all :: "chart_event list \<Rightarrow> dashboard \<Rightarrow> dashboard" where
  "dispatch_all [] s = s"
| "dispatch_all (e # es) s = dispatch_all es (snd (dispatch e s))"

text \<open>The table a query reads: the word that follows the first \<^verbatim>\<open>FROM\<close>.\<close>

fun from_table :: "string \<Rightarrow> string option" where
  "from_table [] = None"
| "from_table (c # cs) =
     (if prefix ''FROM '' (c # cs)
      then Some (takeWhile (\<lambda>x. x \<noteq> CHR '' '' \<and> x \<noteq> CHR 0x0A) (drop 5 (c # cs)))
      else from_table cs)"

section \<open>The map redraw (updateMap)\<close>

text \<open>
  \<^verbatim>\<open>updateMap\<close> is built from functions of the D3 library, which are modelled here as D3
  defines them. Numbers are exact rationals; \<open>None\<close> stands for \<^verbatim>\<open>undefined\<close> and for
  \<^verbatim>\<open>NaN\<close>, which the arithmetic of \<^verbatim>\<open>updateMap\<close> does not tell apart.

  \<^verbatim>\<open>d3.schemeBlues[5]\<close> is the five-colour ramp of blues, lightest first.
\<close>

definition schemeBlues5 :: "string list" where
  "schemeBlues5 = [''#eff3ff'', ''#bdd7e7'', ''#6baed6'', ''#3182bd'', ''#08519c'']"

text \<open>
  \<^verbatim>\<open>d3.range(start, stop, step)\<close> returns the \<open>max(0, ceil((stop - start) / step))\<close> numbers
  \<open>start + i * step\<close>. The count is not a positive number, and the array is empty, when an
  argument is \<^verbatim>\<open>NaN\<close> or the step is zero. (D3 also truncates the count to 32 bits;
  \<^verbatim>\<open>updateMap\<close> only reaches the counts 0 and 5.)
\<close>

definition d3_range :: "rat option \<Rightarrow> rat option \<Rightarrow> rat option \<Rightarrow> rat list" where
  "d3_range start stop step =
     (case (start, stop, step) of
        (Some a, Some b, Some h) \<Rightarrow>
          (if h = 0 then []
           else map (\<lambda>i. a + rat_of_nat i * h) [0..<nat (max 0 \<lceil>(b - a) / h\<rceil>)])
      | _ \<Rightarrow> [])"

text \<open>
  \<^verbatim>\<open>d3.bisectRight(a, x, lo, hi)\<close>, the binary search of a threshold scale. It is called
  with \<open>hi\<close> at most the length of \<open>a\<close>, so every read \<open>a ! mid\<close> is inside the array.
\<close>

function bisectRight :: "rat list \<Rightarrow> rat \<Rightarrow> nat \<Rightarrow> nat \<Rightarrow> nat" where
  "bisectRight a x lo hi =
     (if lo < hi
      then (let mid = (lo + hi) div 2
            in if a ! mid > x then bisectRight a x lo mid else bisectRight a x (mid + 1) hi)
      else lo)"
  by pat_completeness auto
termination
  by (relation "measure (\<lambda>(a, x, lo, hi). hi - lo)") auto

declare bisectRight.simps [simp del]

text \<open>
  \<^verbatim>\<open>d3.scaleThreshold()\<close> with its domain and its range. Applied to a number it returns
  \<^verbatim>\<open>range[bisectRight(domain, x, 0, n)]\<close> where \<open>n\<close> is the smaller of the number of thresholds
  and the number of colours less one. \<open>js_nth\<close> is the read of an array element, which is
  \<^verbatim>\<open>undefined\<close> outside the array.
\<close>

record scaleThreshold =
  scale_domain :: "rat list"
  scale_range :: "string list"

definition js_nth :: "'a list \<Rightarrow> int \<Rightarrow> 'a option" where
  "js_nth xs i = (if 0 \<le> i \<and> i < int (length xs) then Some (xs ! nat i) else None)"

definition threshold :: "scaleThreshold \<Rightarrow> rat \<Rightarrow> string option" where
  "threshold sc x =
     (let n = min (int (length (scale_domain sc))) (int (length (scale_range sc)) - 1)
      in js_nth (scale_range sc) (int (bisectRight (scale_domain sc) x 0 (nat n))))"

text \<open>\<^verbatim>\<open>color.invertExtent(y)\<close> is \<^verbatim>\<open>[domain[i - 1], domain[i]]\<close> for \<^verbatim>\<open>i = range.indexOf(y)\<close>.\<close>

fun indexOf :: "'a list \<Rightarrow> 'a \<Rightarrow> int" where
  "indexOf [] y = - 1"
| "indexOf (x # xs) y = (if x = y then 0 else (let i = indexOf xs y in if i < 0 then - 1 else i + 1))"

definition invertExtent :: "scaleThreshold \<Rightarrow> string \<Rightarrow> rat option \<times> rat option" where
  "invertExtent sc y =
     (let i = indexOf (scale_range sc) y
      in (js_nth (scale_domain sc) (i - 1), js_nth (scale_domain sc) i))"

text \<open>The test \<^verbatim>\<open>v ? v : alt\<close> on a number: \<^verbatim>\<open>undefined\<close>, \<^verbatim>\<open>NaN\<close> and 0 are falsy.\<close>

definition or_else :: "rat option \<Rightarrow> rat \<Rightarrow> rat" where
  "or_else v alt = (case v of None \<Rightarrow> alt | Some r \<Rightarrow> if r = 0 then alt else r)"

text \<open>
  \<^verbatim>\<open>d3.scaleLinear().domain(d).rangeRound(r)\<close>, not clamped: the position of \<open>v\<close> in the
  domain, carried to the range and rounded by \<^verbatim>\<open>Math.round\<close>. On a domain of width zero the
  position is a constant \<open>t0\<close> that depends on the release of d3-scale, so it is a parameter.
\<close>

definition js_round :: "rat \<Rightarrow> int" where
  "js_round r = \<lfloor>r + 1 / 2\<rfloor>"

definition scaleLinear :: "rat \<Rightarrow> rat \<times> rat \<Rightarrow> rat \<times> rat \<Rightarrow> rat \<Rightarrow> int" where
  "scaleLinear t0 d r v =
     (let t = (if snd d - fst d = 0 then t0 else (v - fst d) / (snd d - fst d))
      in js_round (fst r + (snd r - fst r) * t))"

text \<open>
  The datum bound to a \<^verbatim>\<open>.zipcode\<close> element is a feature of the shape file, with its
  \<^verbatim>\<open>properties.zipcode\<close>, until a join binds a pair of \<^verbatim>\<open>selection.data\<close> to the element.
  The key function \<^verbatim>\<open>d => (d[0] ? d[0] : d.properties.zipcode)\<close> returns the zip code of a
  feature and the first component of a pair; on a pair whose first component is the empty
  string it reads \<^verbatim>\<open>zipcode\<close> of \<^verbatim>\<open>undefined\<close> and throws.
\<close>

datatype zip_datum = Feature string | Count "string \<times> int"

fun zip_key :: "zip_datum \<Rightarrow> js_error + string" where
  "zip_key (Feature z) = Inr z"
| "zip_key (Count d) = (if fst d \<noteq> [] then Inr (fst d) else Inl TypeError)"

fun keys_of :: "zip_datum list \<Rightarrow> js_error + string list" where
  "keys_of [] = Inr []"
| "keys_of (d # ds) =
     (case zip_key d of
        Inl e \<Rightarrow> Inl e
      | Inr k \<Rightarrow> (case keys_of ds of Inl e \<Rightarrow> Inl e | Inr ks \<Rightarrow> Inr (k # ks)))"

text \<open>
  The keyed join of \<^verbatim>\<open>selection.data(data, key)\<close>, given the keys of the elements in document
  order: an element whose key an earlier element has already is in the exit selection
  (\<open>None\<close>); any other element is bound to the first datum with its key, or is in the exit
  selection when there is none.
\<close>

fun bindKey :: "string list \<Rightarrow> (string \<times> 'd) list \<Rightarrow> string list \<Rightarrow> 'd option list" where
  "bindKey seen keyed [] = []"
| "bindKey seen keyed (k # ks) =
     (if k \<in> set seen then None else map_of keyed k) # bindKey (k # seen) keyed ks"

record zip_node =
  datum :: zip_datum
  fill :: "string option"

record legend_rect =
  rect_x :: int
  rect_width :: int
  rect_fill :: "string option"

record map_view =
  zipcodes :: "zip_node list"
  boxes :: "legend_rect list"
  tickValues :: "rat list"
  caption :: string

text \<open>The scale \<^verbatim>\<open>color\<close> that \<^verbatim>\<open>updateMap\<close> builds from \<^verbatim>\<open>maxCount\<close>.\<close>

definition color :: "rat option \<Rightarrow> scaleThreshold" where
  "color maxCount =
     (let steps = 5
      in \<lparr>scale_domain = d3_range (Some 0) maxCount (map_option (\<lambda>m. m / steps) maxCount),
          scale_range = schemeBlues5\<rparr>)"

text \<open>
  \<^verbatim>\<open>updateMap(g, selection)\<close>. The group \<open>g\<close> is the list of its \<^verbatim>\<open>.zipcode\<close> elements. The
  only statement that can throw is the join, which calls the key function on the datum of
  every element and then on every pair of the data. The result lists the elements with the
  fill the transitions end in, the rectangles of the legend (five, one for each colour,
  whether entered or already there), the tick values of the axis and the caption.
\<close>

definition updateMap :: "rat \<Rightarrow> zip_node list \<Rightarrow> selection \<Rightarrow> js_error + map_view" where
  "updateMap t0 g sel =
     (let maxCount = map_option rat_of_int (d3_max (map snd (data sel)))
      in case keys_of (map datum g) of
           Inl e \<Rightarrow> Inl e
         | Inr node_keys \<Rightarrow>
        (case keys_of (map Count (data sel)) of
           Inl e \<Rightarrow> Inl e
         | Inr data_keys \<Rightarrow>
             (let joined = bindKey [] (zip data_keys (data sel)) node_keys;
                  x_domain = (0, or_else maxCount 0);
                  x = scaleLinear t0 x_domain (50, 300)
              in Inr \<lparr>zipcodes =
                        map (\<lambda>(n, j). case j of
                               Some d \<Rightarrow> \<lparr>datum = Count d,
                                          fill = threshold (color maxCount) (rat_of_int (snd d))\<rparr>
                             | None \<Rightarrow> n\<lparr>fill := Some ''none''\<rparr>)
                          (zip g joined),
                      boxes =
                        map (\<lambda>y. let d = invertExtent (color maxCount) y;
                                     d0 = or_else (fst d) (fst x_domain);
                                     d1 = or_else (snd d) (snd x_domain)
                                 in \<lparr>rect_x = x d0, rect_width = x d1 - x d0,
                                     rect_fill = threshold (color maxCount) d0\<rparr>)
                          (scale_range (color maxCount)),
                      tickValues = scale_domain (color maxCount),
                      caption = ''Number of '' @ cuisine sel @ '' Restaurants''\<rparr>)))"

text \<open>Four zip code shapes as \<^verbatim>\<open>createMap\<close> draws them, and three counts, to run the redraw on.\<close>

definition nyc :: "zip_node list" where
  "nyc = [\<lparr>datum = Feature ''10001'', fill = None\<rparr>, \<lparr>datum = Feature ''10002'', fill = None\<rparr>,
          \<lparr>datum = Feature ''10003'', fill = None\<rparr>, \<lparr>datum = Feature ''10004'', fill = None\<rparr>]"


definition counts :: "(string \<times> int) list" where
  "counts = [(''10001'', 5), (''10002'', 0), (''10003'', 12)]"

text \<open>A delivery of 26 categories with pairwise different names, to run the chart on.\<close>

definition alphabet :: "category list" where
  "alphabet = map (\<lambda>i. \<lparr>name = replicate (Suc i) CHR ''a'', value = int i\<rparr>) [0..<26]"

section \<open>Properties of the selection controller\<close>

lemma occurs_in_iff: "occurs_in p s \<longleftrightarrow> (\<exists>a b. s = a @ p @ b)"
proof (induction s)
  case Nil
  then show ?case by auto
next
  case (Cons c cs)
  show ?case
  proof
    assume "occurs_in p (c # cs)"
    then consider "prefix p (c # cs)" | "occurs_in p cs" by auto
    then show "\<exists>a b. c # cs = a @ p @ b"
    proof cases
      case 1
      then obtain b where "c # cs = p @ b" by (auto simp: prefix_def)
      then have "c # cs = [] @ p @ b" by simp
      then show ?thesis by blast
    next
      case 2
      with Cons.IH obtain a b where "cs = a @ p @ b" by blast
      then have "c # cs = (c # a) @ p @ b" by simp
      then show ?thesis by blast
    qed
  next
    assume "\<exists>a b. c # cs = a @ p @ b"
    then obtain a b where ab: "c # cs = a @ p @ b" by blast
    show "occurs_in p (c # cs)"
    proof (cases a)
      case Nil
      with ab have "prefix p (c # cs)" by (simp add: prefix_def)
      then show ?thesis by simp
    next
      case (Cons x a')
      with ab have "cs = a' @ p @ b" by simp
      with Cons.IH have "occurs_in p cs" by blast
      then show ?thesis by simp
    qed
  qed
qed

lemma fire_all_append: "fire_all p (es @ fs) s = fire_all p fs (fire_all p es s)"
  by (induction es arbitrary: s) auto

lemma fire_edit_source:
  "is_edit k \<Longrightarrow> subwaySource (fire p (c, k) s) = subwaySource s"
  by (cases k) (auto simp: is_edit_def updateQueryStatus_def updateCaption_def)

lemma fire_edit_dirty: "is_edit k \<Longrightarrow> circleUpdated (fire p (c, k) s)"
  by (cases k) (auto simp: is_edit_def updateQueryStatus_def updateCaption_def)

lemma edits_keep_source:
  "\<forall>e\<in>set es. is_edit (snd e) \<Longrightarrow> subwaySource (fire_all p es s) = subwaySource s"
proof (induction es arbitrary: s)
  case Nil
  then show ?case by simp
next
  case (Cons e es)
  obtain c k where e: "e = (c, k)" by (cases e)
  with Cons.prems have "is_edit k" by simp
  then have "subwaySource (fire p e s) = subwaySource s"
    unfolding e by (rule fire_edit_source)
  moreover from Cons have "subwaySource (fire_all p es (fire p e s)) = subwaySource (fire p e s)"
    by simp
  ultimately show ?case by simp
qed

lemma edits_set_dirty:
  "es \<noteq> [] \<or> circleUpdated s \<Longrightarrow> \<forall>e\<in>set es. is_edit (snd e) \<Longrightarrow>
     circleUpdated (fire_all p es s)"
proof (induction es arbitrary: s)
  case Nil
  then show ?case by simp
next
  case (Cons e es)
  obtain c k where e: "e = (c, k)" by (cases e)
  with Cons.prems have "is_edit k" by simp
  then have "circleUpdated (fire p e s)"
    unfolding e by (rule fire_edit_dirty)
  with Cons show ?case by simp
qed

lemma mouseup_clears: "\<not> circleUpdated (fire p (c, MOUSEUP) s)"
  by (simp add: updateQuery_def)

lemma mouseup_clean_noop: "\<not> circleUpdated s \<Longrightarrow> fire p (c, MOUSEUP) s = s"
  by (simp add: updateQuery_def)

lemma mouseups_clean_noop:
  "\<not> circleUpdated s \<Longrightarrow> \<forall>e\<in>set ms. snd e = MOUSEUP \<Longrightarrow> fire_all p ms s = s"
proof (induction ms arbitrary: s)
  case Nil
  then show ?case by simp
next
  case (Cons e ms)
  obtain c k where e: "e = (c, k)" by (cases e)
  with Cons.prems have "k = MOUSEUP" by simp
  with e have "fire p e s = updateQuery p c s" by simp
  with Cons.prems(1) have "fire p e s = s" by (simp add: updateQuery_def)
  with Cons show ?case by simp
qed

text \<open>
  C1. Any run of edit-move and edit-resize events followed by one mouseup pushes exactly
  one query to the subway source, and that query is the one built from the circle as it is
  when the mouseup is handled; the geometries seen by the edit events do not enter it. The
  run may start in any state of the controller when it has at least one edit, and in any
  state with the flag set (such as the state right after setup) when it has none.
\<close>

theorem C1_one_update_per_commit:
  assumes "\<forall>e\<in>set es. is_edit (snd e)"
    and "es \<noteq> [] \<or> circleUpdated s"
  shows "setQuery_calls (subwaySource (fire_all p (es @ [(c, MOUSEUP)]) s))
           = setQuery_calls (subwaySource s) @ [circle_query p c]
         \<and> query (subwaySource (fire_all p (es @ [(c, MOUSEUP)]) s)) = circle_query p c
         \<and> circle_query p c =
             ''SELECT *\<newline>                      FROM huyvo.ourdata\<newline>                     WHERE line like '%F%'\<newline>                       AND ST_DWithin(the_geom::geography,\<newline>                                      CDB_LatLng(''
             @ toFixed4 p (lat c) @ '','' @ toFixed4 p (lng c)
             @ '')::geography,\<newline>                                      ''
             @ toString p (radius c) @ '')\<newline>          ''"
proof -
  let ?t = "fire_all p es s"
  have dirty: "circleUpdated ?t"
    using assms(2) assms(1) by (rule edits_set_dirty)
  have src: "subwaySource ?t = subwaySource s"
    using assms(1) by (rule edits_keep_source)
  have run: "fire_all p (es @ [(c, MOUSEUP)]) s = updateQuery p c ?t"
    by (simp add: fire_all_append)
  from dirty src show ?thesis
    unfolding run by (simp add: updateQuery_def setQuery_def circle_query_def)
qed

theorem C1_one_update_per_commit_witness:
  "setQuery_calls (subwaySource (fire_all digit_printers
       [(\<lparr>lat = 1, lng = 2, radius = 3\<rparr>, EDITMOVE), (\<lparr>lat = 4, lng = 5, radius = 3\<rparr>, EDITMOVE),
        (\<lparr>lat = 4, lng = 5, radius = 6\<rparr>, EDITRESIZE), (\<lparr>lat = 7, lng = 8, radius = 9\<rparr>, MOUSEUP)]
       (setupSelectionHandlers digit_printers \<lparr>lat = 0, lng = 0, radius = 1\<rparr> createCartoLayer)))
     = [circle_query digit_printers \<lparr>lat = 7, lng = 8, radius = 9\<rparr>]"
  using C1_one_update_per_commit [of
      "[(\<lparr>lat = 1, lng = 2, radius = 3\<rparr>, EDITMOVE), (\<lparr>lat = 4, lng = 5, radius = 3\<rparr>, EDITMOVE),
        (\<lparr>lat = 4, lng = 5, radius = 6\<rparr>, EDITRESIZE)]"
      "setupSelectionHandlers digit_printers \<lparr>lat = 0, lng = 0, radius = 1\<rparr> createCartoLayer"
      digit_printers "\<lparr>lat = 7, lng = 8, radius = 9\<rparr>"]
  by (simp add: is_edit_def setupSelectionHandlers_def updateQueryStatus_def updateCaption_def
      createCartoLayer_def SQL_def)

text \<open>
  C2, as the claim states it, fails in the initial state: setup leaves the flag set, so the
  first mouseup pushes a query although no edit event has been delivered.
\<close>

theorem C2_initial_commit_counterexample:
  "setQuery_calls (subwaySource
       (setupSelectionHandlers digit_printers \<lparr>lat = 0, lng = 0, radius = 1\<rparr> createCartoLayer)) = []
   \<and> setQuery_calls (subwaySource (fire digit_printers (\<lparr>lat = 0, lng = 0, radius = 1\<rparr>, MOUSEUP)
       (setupSelectionHandlers digit_printers \<lparr>lat = 0, lng = 0, radius = 1\<rparr> createCartoLayer)))
     = [circle_query digit_printers \<lparr>lat = 0, lng = 0, radius = 1\<rparr>]
   \<and> length (setQuery_calls (subwaySource (fire digit_printers (\<lparr>lat = 0, lng = 0, radius = 1\<rparr>, MOUSEUP)
       (setupSelectionHandlers digit_printers \<lparr>lat = 0, lng = 0, radius = 1\<rparr> createCartoLayer))))
     \<noteq> length (setQuery_calls (subwaySource
       (setupSelectionHandlers digit_printers \<lparr>lat = 0, lng = 0, radius = 1\<rparr> createCartoLayer)))"
  by (simp add: setupSelectionHandlers_def updateQueryStatus_def updateCaption_def
      updateQuery_def setQuery_def createCartoLayer_def SQL_def)

text \<open>
  C2, amended. Once a mouseup has been handled, and as long as only mouseups follow it (no
  edit-move and no edit-resize), a further mouseup leaves the controller as it is: it pushes
  no query to the subway source. Whatever preceded the earlier mouseup does not matter.
\<close>

theorem C2_commit_without_edit_is_noop:
  assumes "\<forall>e\<in>set ms. snd e = MOUSEUP"
  shows "fire p (c', MOUSEUP) (fire_all p (es @ (c, MOUSEUP) # ms) s)
           = fire_all p (es @ (c, MOUSEUP) # ms) s
         \<and> setQuery_calls (subwaySource (fire_all p (es @ (c, MOUSEUP) # ms @ [(c', MOUSEUP)]) s))
           = setQuery_calls (subwaySource (fire_all p (es @ (c, MOUSEUP) # ms) s))"
proof -
  let ?t = "fire p (c, MOUSEUP) (fire_all p es s)"
  have clean: "\<not> circleUpdated ?t" by (rule mouseup_clears)
  have ms: "fire_all p ms ?t = ?t"
    using clean assms by (rule mouseups_clean_noop)
  have before: "fire_all p (es @ (c, MOUSEUP) # ms) s = ?t"
    using ms by (simp add: fire_all_append)
  have after: "fire_all p (es @ (c, MOUSEUP) # ms @ [(c', MOUSEUP)]) s = fire p (c', MOUSEUP) ?t"
    using ms by (simp add: fire_all_append)
  have noop: "fire p (c', MOUSEUP) ?t = ?t"
    using clean by (rule mouseup_clean_noop)
  show ?thesis
    unfolding before after noop by simp
qed

theorem C2_commit_without_edit_is_noop_witness:
  "setQuery_calls (subwaySource (fire_all digit_printers
       ([(\<lparr>lat = 1, lng = 2, radius = 3\<rparr>, EDITMOVE)] @ (\<lparr>lat = 1, lng = 2, radius = 3\<rparr>, MOUSEUP)
          # [(\<lparr>lat = 1, lng = 2, radius = 3\<rparr>, MOUSEUP)] @ [(\<lparr>lat = 4, lng = 5, radius = 6\<rparr>, MOUSEUP)])
       (setupSelectionHandlers digit_printers \<lparr>lat = 0, lng = 0, radius = 1\<rparr> createCartoLayer)))
     = [circle_query digit_printers \<lparr>lat = 1, lng = 2, radius = 3\<rparr>]"
proof -
  have h: "\<forall>e\<in>set [(\<lparr>lat = 1, lng = 2, radius = 3::nat\<rparr>, MOUSEUP)]. snd e = MOUSEUP"
    by simp
  show ?thesis
    using C2_commit_without_edit_is_noop [OF h, of digit_printers
        "\<lparr>lat = 4, lng = 5, radius = 6\<rparr>"
        "[(\<lparr>lat = 1, lng = 2, radius = 3\<rparr>, EDITMOVE)]"
        "\<lparr>lat = 1, lng = 2, radius = 3\<rparr>"
        "setupSelectionHandlers digit_printers \<lparr>lat = 0, lng = 0, radius = 1\<rparr> createCartoLayer"]
    by (simp add: setupSelectionHandlers_def updateQueryStatus_def updateCaption_def
        updateQuery_def setQuery_def createCartoLayer_def SQL_def)
qed

text \<open>
  C8. An edit-move or an edit-resize event, in any state of the controller, sets the flag
  and replaces the caption of the info box by the table that shows the latitude, the
  longitude and the radius the circle has at that moment; nothing is tested first, and the
  subway source is not touched.
\<close>

theorem C8_edit_sets_flag_and_caption:
  "circleUpdated (fire p (c, EDITMOVE) s) \<and> circleUpdated (fire p (c, EDITRESIZE) s)
   \<and> infoBox (fire p (c, EDITMOVE) s) = infoBox (fire p (c, EDITRESIZE) s)
   \<and> infoBox (fire p (c, EDITMOVE) s) =
       ''<table style='width:100%'>\<newline>                   <tr><th>Coords</th><td>''
       @ toFixed4 p (lat c) @ '','' @ toFixed4 p (lng c)
       @ ''</td></tr>\<newline>                   <tr><th>Radius</th><td>''
       @ readableDistance p (radius c)
       @ ''</td></tr>\<newline>                   </table>''
   \<and> subwaySource (fire p (c, EDITMOVE) s) = subwaySource s
   \<and> subwaySource (fire p (c, EDITRESIZE) s) = subwaySource s"
  by (simp add: updateQueryStatus_def updateCaption_def caption_html_def)

section \<open>Properties of the category chart\<close>

lemma slice_0_25: "slice 0 (Some 25) xs = take 25 xs"
  by (simp add: slice_def Let_def min_def)

lemma slice_last_Nil: "slice (- 1) None xs = [] \<longleftrightarrow> xs = []"
proof (cases xs)
  case Nil
  then show ?thesis by (simp add: slice_def)
next
  case (Cons x ys)
  then have "nat (int (length xs) - max (int (length xs) + - 1) 0) = 1"
    by simp
  moreover have "nat (max (int (length xs) + - 1) 0) = length ys"
    using Cons by simp
  ultimately have "slice (- 1) None xs = take 1 (drop (length ys) xs)"
    by (simp add: slice_def Let_def)
  then show ?thesis using Cons by simp
qed

lemma createChart_Nil: "createChart g [] = Inl TypeError"
  by (simp add: createChart_def slice_def)

lemma createChart_Cons:
  "byCuisine \<noteq> [] \<Longrightarrow>
     createChart g byCuisine = Inr (take 25 byCuisine @ drop (length (take 25 byCuisine)) g)"
proof -
  assume ne: "byCuisine \<noteq> []"
  then have "take 25 byCuisine \<noteq> []" by (cases byCuisine) auto
  then have "slice (- 1) None (take 25 byCuisine) \<noteq> []"
    by (simp only: slice_last_Nil not_False_eq_True)
  then obtain d ds where "slice (- 1) None (take 25 byCuisine) = d # ds"
    by (cases "slice (- 1) None (take 25 byCuisine)") auto
  then show ?thesis
    by (simp add: createChart_def slice_0_25 Let_def)
qed

lemma off_stays:
  "\<not> totalView_on s \<Longrightarrow>
     \<not> totalView_on (dispatch_all es s)
     \<and> createChart_calls (dispatch_all es s) = createChart_calls s
     \<and> gChart (dispatch_all es s) = gChart s"
proof (induction es arbitrary: s)
  case Nil
  then show ?case by simp
next
  case (Cons e es)
  have "\<not> totalView_on (snd (dispatch e s))
        \<and> createChart_calls (snd (dispatch e s)) = createChart_calls s
        \<and> gChart (snd (dispatch e s)) = gChart s"
    using Cons.prems by (cases e) (auto simp: bar_click_def Let_def)
  with Cons.IH [of "snd (dispatch e s)"] show ?case by simp
qed

text \<open>
  While the first delivery on \<^verbatim>\<open>totalView\<close> carries at least one category, the chart is built
  by that delivery, \<^verbatim>\<open>initBarChart\<close> is taken off, and no later event calls
  \<^verbatim>\<open>createChart\<close> again.
\<close>

lemma initBarChart_one_shot:
  assumes "categories \<noteq> []" and "totalView_on s"
  shows "createChart_calls (dispatch_all (TotalData categories # es) s)
           = createChart_calls s @ [map (\<lambda>d. (name d, value d)) categories]
         \<and> \<not> totalView_on (snd (dispatch (TotalData categories) s))"
proof -
  let ?by = "map (\<lambda>d. (name d, value d)) categories"
  let ?s1 = "snd (dispatch (TotalData categories) s)"
  from assms(1) have "?by \<noteq> []" by simp
  then have cc: "createChart (gChart s) ?by = Inr (take 25 ?by @ drop (length (take 25 ?by)) (gChart s))"
    by (rule createChart_Cons)
  have off: "\<not> totalView_on ?s1" and calls: "createChart_calls ?s1 = createChart_calls s @ [?by]"
    using assms(2) cc by (simp_all add: initBarChart_def Let_def)
  from off_stays [OF off, of es] calls show ?thesis using off by simp
qed

text \<open>Bars are drawn only by the call that takes \<^verbatim>\<open>initBarChart\<close> off.\<close>

lemma no_bars_while_on:
  assumes "totalView_on s \<longrightarrow> gChart s = []"
  shows "totalView_on (snd (dispatch e s)) \<longrightarrow> gChart (snd (dispatch e s)) = []"
proof (cases e)
  case (TotalData categories)
  with assms show ?thesis
    by (auto simp: initBarChart_def Let_def split: sum.splits)
next
  case (Click i)
  with assms show ?thesis
    by (auto simp: bar_click_def)
qed

text \<open>
  C3. The claim is that the callback calls \<^verbatim>\<open>createChart\<close> at most once in a session and that
  its first call takes it off. On an empty first delivery the code does otherwise:
  \<^verbatim>\<open>createChart\<close> throws a TypeError, \<^verbatim>\<open>totalView.off\<close> is not reached, the callback stays
  registered, and the next delivery calls \<^verbatim>\<open>createChart\<close> a second time.
\<close>

theorem C3_empty_first_delivery:
  "fst (dispatch (TotalData []) createChartFromCarto) = Some TypeError
   \<and> totalView_on (snd (dispatch (TotalData []) createChartFromCarto))
   \<and> createChart_calls (dispatch_all
        [TotalData [], TotalData [\<lparr>name = ''Pizza'', value = 3\<rparr>]] createChartFromCarto)
      = [[], [(''Pizza'', 3)]]"
  by (simp add: createChartFromCarto_def initBarChart_def createChart_Nil createChart_Cons Let_def SQL_def)

text \<open>
  C6. Clicking the bar of Pizza and then the bar of Tacos pushes exactly two queries to the
  restaurant source, one for each click in that order. The second query, which is the
  source's query afterwards, mentions Tacos and does not mention Pizza. The query of a click
  is a fixed text around the key of the bar, copied as it is. The last conjunct runs the two
  clicks on the chart built from a delivery of these two categories.
\<close>

theorem C6_two_clicks_two_queries:
  "setQuery_calls (resData (bar_click (''Tacos'', v2) (bar_click (''Pizza'', v1) s)))
     = setQuery_calls (resData s) @ [cuisine_query ''Pizza'', cuisine_query ''Tacos'']
   \<and> query (resData (bar_click (''Tacos'', v2) (bar_click (''Pizza'', v1) s))) = cuisine_query ''Tacos''
   \<and> occurs_in ''Tacos'' (cuisine_query ''Tacos'')
   \<and> \<not> occurs_in ''Pizza'' (cuisine_query ''Tacos'')
   \<and> (\<forall>k. cuisine_query k = 
     ''\<newline>          SELECT *\<newline>            FROM htv210.nyc_restaurant_grades\<newline>           WHERE cuisine=''
     @ [CHR 0x27] @ k @ [CHR 0x27] @ ''\<newline>        '')
   \<and> setQuery_calls (resData (dispatch_all
        [TotalData [\<lparr>name = ''Pizza'', value = 10\<rparr>, \<lparr>name = ''Tacos'', value = 7\<rparr>],
         Click 0, Click 1] createChartFromCarto))
      = [cuisine_query ''Pizza'', cuisine_query ''Tacos'']"
proof -
  have run: "setQuery_calls (resData (dispatch_all
        [TotalData [\<lparr>name = ''Pizza'', value = 10\<rparr>, \<lparr>name = ''Tacos'', value = 7\<rparr>],
         Click 0, Click 1] createChartFromCarto))
      = [cuisine_query ''Pizza'', cuisine_query ''Tacos'']"
    by (simp add: createChartFromCarto_def initBarChart_def createChart_Cons Let_def SQL_def
        bar_click_def setQuery_def)
  have mentions: "occurs_in ''Tacos'' (cuisine_query ''Tacos'')"
    "\<not> occurs_in ''Pizza'' (cuisine_query ''Tacos'')"
    by (simp_all add: cuisine_query_def)
  show ?thesis
    using run mentions by (simp add: bar_click_def setQuery_def cuisine_query_def)
qed

text \<open>
  C9. Whatever the key of the clicked bar, the query the click installs on the restaurant
  source reads the table \<^verbatim>\<open>htv210.nyc_restaurant_grades\<close>, while the query the source is
  created with reads \<^verbatim>\<open>huyvo.nyc_restaurant_grades\<close>: the filtered query is over another
  table than the initial one.
\<close>

theorem C9_click_query_other_table:
  "from_table (cuisine_query k) = Some ''htv210.nyc_restaurant_grades''
   \<and> from_table (query (resData createChartFromCarto)) = Some ''huyvo.nyc_restaurant_grades''
   \<and> query (resData (bar_click (k, v) s)) = cuisine_query k
   \<and> from_table (query (resData (bar_click (k, v) s))) \<noteq> from_table (query (resData createChartFromCarto))"
  by (simp add: cuisine_query_def createChartFromCarto_def SQL_def bar_click_def setQuery_def)


text \<open>
  C10. While \<^verbatim>\<open>initBarChart\<close> is registered and no bar has been drawn, the bars a delivery
  builds are the first 25 pairs of that delivery, in the order delivered, although
  \<^verbatim>\<open>totalView\<close> asks for up to 1000 categories. When the names of the delivery are pairwise
  different, the name of a pair at position 25 or later (counting from 0) is the key of no
  bar.
\<close>

theorem C10_first_25_bars:
  assumes "totalView_on s" and "gChart s = []"
  shows "gChart (snd (dispatch (TotalData categories) s))
           = take 25 (map (\<lambda>d. (name d, value d)) categories)
         \<and> length (gChart (snd (dispatch (TotalData categories) s))) \<le> 25
         \<and> limit totalView = 1000
         \<and> (distinct (map name categories) \<longrightarrow>
              (\<forall>i. 25 \<le> i \<and> i < length categories \<longrightarrow>
                 name (categories ! i)
                   \<notin> fst ` set (gChart (snd (dispatch (TotalData categories) s)))))"
proof -
  let ?by = "map (\<lambda>d. (name d, value d)) categories"
  let ?g = "gChart (snd (dispatch (TotalData categories) s))"
  have g: "?g = take 25 ?by"
  proof (cases "categories = []")
    case True
    then show ?thesis
      using assms by (simp add: initBarChart_def createChart_Nil)
  next
    case False
    then have "?by \<noteq> []" by simp
    then have "createChart [] ?by = Inr (take 25 ?by @ drop (length (take 25 ?by)) [])"
      by (rule createChart_Cons)
    then show ?thesis
      using assms by (simp add: initBarChart_def Let_def)
  qed
  have far: "name (categories ! i) \<notin> fst ` set (take 25 ?by)"
    if d: "distinct (map name categories)" and i: "25 \<le> i" "i < length categories" for i
  proof
    assume "name (categories ! i) \<in> fst ` set (take 25 ?by)"
    moreover have "fst ` set (take 25 ?by) = set (take 25 (map name categories))"
      by (simp add: take_map image_image)
    ultimately have "name (categories ! i) \<in> set (take 25 (map name categories))"
      by simp
    then obtain j where j: "j < 25" "j < length categories"
        and eq: "map name categories ! j = name (categories ! i)"
      by (auto simp: in_set_conv_nth)
    from j i have "map name categories ! j = map name categories ! i"
      using eq by simp
    moreover from j i have "j < length (map name categories)" "i < length (map name categories)"
      by simp_all
    ultimately have "j = i"
      using d by (simp only: nth_eq_iff_index_eq)
    with j i show False by simp
  qed
  show ?thesis
    unfolding g using far by (simp add: totalView_def)
qed

theorem C10_first_25_bars_witness:
  "distinct (map name alphabet) \<and> length alphabet = 26
   \<and> name (alphabet ! 25) \<notin> fst ` set (gChart (snd (dispatch (TotalData alphabet) createChartFromCarto)))
   \<and> length (gChart (snd (dispatch (TotalData alphabet) createChartFromCarto))) = 25"
proof -
  have d: "distinct (map name alphabet)"
    unfolding alphabet_def by (simp add: distinct_map inj_on_def comp_def)
  have l: "length alphabet = 26" by (simp add: alphabet_def)
  have on: "totalView_on createChartFromCarto" and empty: "gChart createChartFromCarto = []"
    by (simp_all add: createChartFromCarto_def)
  note bars = C10_first_25_bars [OF on empty, of alphabet]
  have far: "name (alphabet ! 25)
      \<notin> fst ` set (gChart (snd (dispatch (TotalData alphabet) createChartFromCarto)))"
  proof -
    from bars d have "\<forall>i. 25 \<le> i \<and> i < length alphabet \<longrightarrow>
        name (alphabet ! i)
          \<notin> fst ` set (gChart (snd (dispatch (TotalData alphabet) createChartFromCarto)))"
      by blast
    then have "25 \<le> (25::nat) \<and> 25 < length alphabet \<longrightarrow> name (alphabet ! 25)
          \<notin> fst ` set (gChart (snd (dispatch (TotalData alphabet) createChartFromCarto)))"
      by (rule spec)
    with l show ?thesis by simp
  qed
  have "length (gChart (snd (dispatch (TotalData alphabet) createChartFromCarto))) = 25"
    using bars l by simp
  with d l far show ?thesis by simp
qed

section \<open>Properties of the map redraw\<close>

lemma floor_numeral_div: "\<lfloor>(numeral a :: rat) / numeral b\<rfloor> = numeral a div numeral b"
  by (metis floor_divide_of_int_eq of_int_numeral)

lemma counts_max: "d3_max (map snd counts) = Some 12"
  by (simp add: counts_def)

lemma color_12: "color (Some 12) = \<lparr>scale_domain = [0, 12 / 5, 24 / 5, 36 / 5, 48 / 5], scale_range = schemeBlues5\<rparr>"
  by (simp add: color_def d3_range_def upt_rec)

lemma color_12_bins: "threshold (color (Some 12)) x =
    (if x < 0 then Some ''#eff3ff'' else if x < 12 / 5 then Some ''#bdd7e7''
     else if x < 24 / 5 then Some ''#6baed6'' else if x < 36 / 5 then Some ''#3182bd''
     else Some ''#08519c'')"
  unfolding color_12
  by (simp add: threshold_def schemeBlues5_def js_nth_def bisectRight.simps Let_def)

text \<open>
  C4. On the counts 5, 0 and 12 the maximum is 12 and the thresholds are 0, 2.4, 4.8, 7.2 and
  9.6. With five colours the scale uses only the first four thresholds: the lightest colour
  is returned below 0 only, the three next colours on [0, 2.4), [2.4, 4.8) and [4.8, 7.2),
  and the darkest from 7.2 on. The zip code 10002, with count 0, is joined to its shape (the
  shape without a count, 10004, is the one filled with none) and gets the second colour of
  the ramp, not the first.
\<close>

theorem C4_counts_5_0_12:
  "d3_max (map snd counts) = Some 12
   \<and> updateMap t0 nyc \<lparr>cuisine = cu, data = counts\<rparr> =
       Inr \<lparr>zipcodes =
              [\<lparr>datum = Count (''10001'', 5), fill = Some ''#3182bd''\<rparr>,
               \<lparr>datum = Count (''10002'', 0), fill = Some ''#bdd7e7''\<rparr>,
               \<lparr>datum = Count (''10003'', 12), fill = Some ''#08519c''\<rparr>,
               \<lparr>datum = Feature ''10004'', fill = Some ''none''\<rparr>],
            boxes =
              [\<lparr>rect_x = 50, rect_width = 250, rect_fill = Some ''#bdd7e7''\<rparr>,
               \<lparr>rect_x = 50, rect_width = 50, rect_fill = Some ''#bdd7e7''\<rparr>,
               \<lparr>rect_x = 100, rect_width = 50, rect_fill = Some ''#6baed6''\<rparr>,
               \<lparr>rect_x = 150, rect_width = 50, rect_fill = Some ''#3182bd''\<rparr>,
               \<lparr>rect_x = 200, rect_width = 50, rect_fill = Some ''#08519c''\<rparr>],
            tickValues = [0, 12 / 5, 24 / 5, 36 / 5, 48 / 5],
            caption = ''Number of '' @ cu @ '' Restaurants''\<rparr>
   \<and> (\<forall>x. threshold (color (Some 12)) x =
         (if x < 0 then Some ''#eff3ff'' else if x < 12 / 5 then Some ''#bdd7e7''
          else if x < 24 / 5 then Some ''#6baed6'' else if x < 36 / 5 then Some ''#3182bd''
          else Some ''#08519c''))
   \<and> schemeBlues5 ! 0 = ''#eff3ff'' \<and> schemeBlues5 ! 1 = ''#bdd7e7''"
proof -
  have run: "updateMap t0 nyc \<lparr>cuisine = cu, data = counts\<rparr> =
       Inr \<lparr>zipcodes =
              [\<lparr>datum = Count (''10001'', 5), fill = Some ''#3182bd''\<rparr>,
               \<lparr>datum = Count (''10002'', 0), fill = Some ''#bdd7e7''\<rparr>,
               \<lparr>datum = Count (''10003'', 12), fill = Some ''#08519c''\<rparr>,
               \<lparr>datum = Feature ''10004'', fill = Some ''none''\<rparr>],
            boxes =
              [\<lparr>rect_x = 50, rect_width = 250, rect_fill = Some ''#bdd7e7''\<rparr>,
               \<lparr>rect_x = 50, rect_width = 50, rect_fill = Some ''#bdd7e7''\<rparr>,
               \<lparr>rect_x = 100, rect_width = 50, rect_fill = Some ''#6baed6''\<rparr>,
               \<lparr>rect_x = 150, rect_width = 50, rect_fill = Some ''#3182bd''\<rparr>,
               \<lparr>rect_x = 200, rect_width = 50, rect_fill = Some ''#08519c''\<rparr>],
            tickValues = [0, 12 / 5, 24 / 5, 36 / 5, 48 / 5],
            caption = ''Number of '' @ cu @ '' Restaurants''\<rparr>"
    by (simp add: updateMap_def counts_max [unfolded counts_def, simplified]
        color_12_bins [unfolded color_12 schemeBlues5_def]
        nyc_def counts_def Let_def color_12 floor_numeral_div
        invertExtent_def schemeBlues5_def js_nth_def or_else_def scaleLinear_def js_round_def)
  have ramp: "schemeBlues5 ! 0 = ''#eff3ff''" "schemeBlues5 ! 1 = ''#bdd7e7''"
    by (simp_all add: schemeBlues5_def)
  show ?thesis
    using run counts_max color_12_bins ramp by (simp only: simp_thms)
qed

lemma keys_of_length: "keys_of ds = Inr ks \<Longrightarrow> length ks = length ds"
  by (induction ds arbitrary: ks) (auto split: sum.splits)

lemma keys_of_Inr_iff: "(\<exists>ks. keys_of ds = Inr ks) \<longleftrightarrow> (\<forall>d\<in>set ds. \<exists>k. zip_key d = Inr k)"
  by (induction ds) (auto split: sum.splits)

lemma bindKey_no_data: "bindKey seen [] ks = replicate (length ks) None"
  by (induction ks arbitrary: seen) auto

lemma bindKey_length: "length (bindKey seen keyed ks) = length ks"
  by (induction ks arbitrary: seen) auto

lemma bindKey_Some:
  "Some d \<in> set (bindKey seen keyed ks) \<Longrightarrow> d \<in> snd ` set keyed"
proof (induction ks arbitrary: seen)
  case Nil
  then show ?case by simp
next
  case (Cons k ks)
  from Cons.prems consider "(if k \<in> set seen then None else map_of keyed k) = Some d"
    | "Some d \<in> set (bindKey (k # seen) keyed ks)" by auto
  then show ?case
  proof cases
    case 1
    then have "map_of keyed k = Some d" by (simp split: if_splits)
    then have "(k, d) \<in> set keyed" by (rule map_of_SomeD)
    then show ?thesis by force
  next
    case 2
    then show ?thesis by (rule Cons.IH)
  qed
qed

lemma color_None: "color None = \<lparr>scale_domain = [], scale_range = schemeBlues5\<rparr>"
  by (simp add: color_def d3_range_def)

lemma zip_replicate_None:
  "length g = m \<Longrightarrow>
   map (\<lambda>(n, j). case j of Some d \<Rightarrow> f n d | None \<Rightarrow> h n) (zip g (replicate m None)) = map h g"
  by (induction g arbitrary: m) auto

text \<open>
  C5. With no counts, and elements on which the key function does not throw, the redraw
  returns: every zip code shape is filled with none, the scale has no threshold, the axis
  of the legend has no tick and each of the five rectangles of the legend has width 0.
\<close>

theorem C5_empty_counts_redraw:
  assumes "keys_of (map datum g) = Inr ks"
  shows "updateMap t0 g \<lparr>cuisine = cu, data = []\<rparr> =
     Inr \<lparr>zipcodes = map (\<lambda>n. n\<lparr>fill := Some ''none''\<rparr>) g,
          boxes = replicate 5 \<lparr>rect_x = js_round (50 + 250 * t0), rect_width = 0,
                                rect_fill = Some ''#eff3ff''\<rparr>,
          tickValues = [],
          caption = ''Number of '' @ cu @ '' Restaurants''\<rparr>"
proof -
  have len: "length g = length ks"
    using keys_of_length [OF assms] by simp
  have dom: "scale_domain (color None) = []" and rng: "scale_range (color None) = schemeBlues5"
    by (simp_all add: color_None)
  have lowest: "threshold (color None) 0 = Some ''#eff3ff''"
    by (simp add: color_None threshold_def bisectRight.simps js_nth_def schemeBlues5_def)
  have extent: "invertExtent (color None) y = (None, None)" for y
    by (simp add: color_None invertExtent_def js_nth_def Let_def)
  have five: "map (\<lambda>y. b) schemeBlues5 = replicate 5 b" for b :: legend_rect
    by (simp add: schemeBlues5_def numeral_eq_Suc)
  show ?thesis
    unfolding updateMap_def Let_def
    by (simp add: assms bindKey_no_data zip_replicate_None [OF len] extent lowest dom rng five
        or_else_def scaleLinear_def Let_def)
qed

text \<open>
  The elements never hold a datum on which the key function throws: the shapes
  \<^verbatim>\<open>createMap\<close> draws are bound to features, and a redraw that returns leaves only data whose
  key it has computed.
\<close>

lemma features_have_keys:
  "\<forall>n\<in>set g. \<exists>z. datum n = Feature z \<Longrightarrow> \<exists>ks. keys_of (map datum g) = Inr ks"
  unfolding keys_of_Inr_iff by auto

lemma updateMap_keeps_keys:
  assumes "updateMap t0 g sel = Inr v"
  shows "\<exists>ks. keys_of (map datum (zipcodes v)) = Inr ks"
proof -
  from assms obtain nk where nk: "keys_of (map datum g) = Inr nk"
    by (auto simp: updateMap_def Let_def split: sum.splits)
  from assms nk obtain dk where dk: "keys_of (map Count (data sel)) = Inr dk"
    by (auto simp: updateMap_def Let_def split: sum.splits)
  let ?joined = "bindKey [] (zip dk (data sel)) nk"
  let ?f = "\<lambda>(n, j). case j of
              Some d \<Rightarrow> \<lparr>datum = Count d,
                         fill = threshold (color (map_option rat_of_int (d3_max (map snd (data sel)))))
                                  (rat_of_int (snd d))\<rparr>
            | None \<Rightarrow> n\<lparr>fill := Some ''none''\<rparr>"
  have v: "zipcodes v = map ?f (zip g ?joined)"
    using assms nk dk by (auto simp: updateMap_def Let_def)
  have old: "\<exists>k. zip_key (datum n) = Inr k" if "n \<in> set g" for n
    using nk that keys_of_Inr_iff [of "map datum g"] by auto
  have new: "\<exists>k. zip_key (Count d) = Inr k" if "d \<in> set (data sel)" for d
    using dk that keys_of_Inr_iff [of "map Count (data sel)"] by auto
  have "\<exists>k. zip_key (datum (?f (n, j))) = Inr k" if "(n, j) \<in> set (zip g ?joined)" for n j
  proof (cases j)
    case None
    from that have "n \<in> set g" by (rule set_zip_leftD)
    with None old show ?thesis by simp
  next
    case (Some d)
    from that have "j \<in> set ?joined" by (rule set_zip_rightD)
    with Some have "d \<in> snd ` set (zip dk (data sel))" by (simp add: bindKey_Some)
    then have "d \<in> set (data sel)" by (auto dest: set_zip_rightD)
    with Some new show ?thesis by simp
  qed
  then have "\<forall>d\<in>set (map datum (zipcodes v)). \<exists>k. zip_key d = Inr k"
    unfolding v by auto
  then show ?thesis
    by (simp only: keys_of_Inr_iff)
qed

theorem C5_empty_counts_redraw_witness:
  "updateMap 0 nyc \<lparr>cuisine = ''All'', data = []\<rparr> =
     Inr \<lparr>zipcodes = map (\<lambda>n. n\<lparr>fill := Some ''none''\<rparr>) nyc,
          boxes = replicate 5 \<lparr>rect_x = 50, rect_width = 0, rect_fill = Some ''#eff3ff''\<rparr>,
          tickValues = [],
          caption = ''Number of All Restaurants''\<rparr>"
proof -
  have k: "keys_of (map datum nyc) = Inr [''10001'', ''10002'', ''10003'', ''10004'']"
    by (simp add: nyc_def)
  show ?thesis
    using C5_empty_counts_redraw [OF k, of 0 "''All''"] by (simp add: js_round_def floor_numeral_div)
qed


end
